theory Spec2Isabelle
  imports Main
begin

section \<open>The busy-indicator registry of \<^verbatim>\<open>src/BusyIndicatorManager.ts\<close>\<close>

text \<open>
  The class \<^verbatim>\<open>BusyIndicatorManager\<close> keeps an object \<^verbatim>\<open>states\<close> used as a dictionary
  from keys to values of type \<^verbatim>\<open>any\<close>, and two flags \<^verbatim>\<open>strict\<close> and \<^verbatim>\<open>createOnGet\<close>
  (the specification calls them \<^emph>\<open>entries\<close>, \<^emph>\<open>strictMode\<close> and \<^emph>\<open>createOnAccess\<close>).

  \<^verbatim>\<open>states\<close> is an ordinary JavaScript object, created by \<^verbatim>\<open>{}\<close> or handed to \<^verbatim>\<open>init\<close> as
  an object literal. Such an object has its own properties, which are the entries, and a
  prototype, \<^verbatim>\<open>Object.prototype\<close>, whose members it inherits. The code tests a key with
  \<^verbatim>\<open>key in this.states\<close>, reads with \<^verbatim>\<open>this.states[key]\<close>, writes with
  \<^verbatim>\<open>this.states[key] = value\<close> and deletes with \<^verbatim>\<open>delete this.states[key]\<close>; the first
  three go through the prototype, the last does not. The model follows the language on
  each of them.

  Scope of the model.
  \<^item> The values a caller supplies are primitives: \<^verbatim>\<open>undefined\<close>, \<^verbatim>\<open>null\<close>, booleans,
    integral numbers of magnitude below \<open>2\<^sup>5\<^sup>3\<close>, strings and symbols. Objects supplied
    as values are outside the model (their conversion to a string can run any code, and
    the \<^verbatim>\<open>__proto__\<close> setter would install them as prototype). A read can moreover yield
    a member of \<^verbatim>\<open>Object.prototype\<close>.
  \<^item> \<^verbatim>\<open>Object.prototype\<close> has the members the language gives it and no others; the
    object handed to \<^verbatim>\<open>init\<close> is a fresh, extensible object literal with data
    properties.
  \<^item> An argument left out of a call is \<^verbatim>\<open>undefined\<close>, as in JavaScript, where a
    default parameter value replaces an argument that is \<^verbatim>\<open>undefined\<close>, whether it was
    left out or passed explicitly.
  \<^item> \<^verbatim>\<open>console.warn\<close> appends to a log; every operation returns the messages it
    logged, in order, together with its result and the manager after the call. A
    \<^verbatim>\<open>throw\<close> is the result \<open>Inl\<close>; the manager after a throw is what the method had
    written up to that point.
\<close>

subsection \<open>Values\<close>

text \<open>
  The numbers of the model are the integers that a JavaScript number holds exactly and
  prints digit by digit.
\<close>

typedef safe_integer = "{i :: int. - (2 ^ 53) < i \<and> i < 2 ^ 53}"
  by (rule exI [of _ 0]) simp

text \<open>A symbol has an identity and a description.\<close>

datatype jsval =
  JUndefined | JNull | JBool bool | JNum safe_integer | JStr string | JSymbol nat string

text \<open>A default parameter \<^verbatim>\<open>(x = d)\<close>: the default replaces \<^verbatim>\<open>undefined\<close> only.\<close>

definition default_param :: "jsval \<Rightarrow> jsval \<Rightarrow> jsval" where
  "default_param x d = (if x = JUndefined then d else x)"

text \<open>The operator \<^verbatim>\<open>a ?? b\<close>: \<^verbatim>\<open>b\<close> replaces \<^verbatim>\<open>null\<close> and \<^verbatim>\<open>undefined\<close>.\<close>

definition nullish :: "jsval \<Rightarrow> bool" where
  "nullish x = (x = JUndefined \<or> x = JNull)"

definition coalesce :: "jsval \<Rightarrow> jsval \<Rightarrow> jsval" where
  "coalesce a b = (if nullish a then b else a)"

text \<open>
  What \<^verbatim>\<open>this.states[key]\<close> yields: a value that was stored (or \<^verbatim>\<open>undefined\<close>), or the
  member of \<^verbatim>\<open>Object.prototype\<close> of that name. The inherited members are objects (ten
  methods, the function \<^verbatim>\<open>Object\<close> under \<^verbatim>\<open>constructor\<close>, and \<^verbatim>\<open>Object.prototype\<close> itself
  under \<^verbatim>\<open>__proto__\<close>), so none of them is \<^verbatim>\<open>null\<close> or \<^verbatim>\<open>undefined\<close>.
\<close>

datatype reading = Value jsval | Inherited string

fun coalesce_reading :: "reading \<Rightarrow> jsval \<Rightarrow> reading" where
  "coalesce_reading (Value v) d = Value (coalesce v d)"
| "coalesce_reading (Inherited name) d = Inherited name"

text \<open>
  A template literal throws a \<^verbatim>\<open>TypeError\<close> when it interpolates a symbol; the function
  \<^verbatim>\<open>String\<close> converts every primitive.
\<close>

fun template_throws :: "reading \<Rightarrow> bool" where
  "template_throws (Value (JSymbol i d)) = True"
| "template_throws r = False"

subsection \<open>The manager and the outcome of a call\<close>

text \<open>
  The prototype of the \<^verbatim>\<open>states\<close> object: \<^verbatim>\<open>Object.prototype\<close>, until an assignment
  to \<^verbatim>\<open>__proto__\<close> sets it to \<^verbatim>\<open>null\<close>.
\<close>

datatype proto = ObjectPrototype | NullPrototype

definition object_prototype_names :: "string list" where
  "object_prototype_names =
     [''constructor'', ''__defineGetter__'', ''__defineSetter__'', ''hasOwnProperty'',
      ''__lookupGetter__'', ''__lookupSetter__'', ''isPrototypeOf'', ''propertyIsEnumerable'',
      ''toString'', ''valueOf'', ''__proto__'', ''toLocaleString'']"

record manager =
  states :: "string \<rightharpoonup> jsval"
  strict :: bool
  createOnGet :: bool
  states_proto :: proto

text \<open>
  A message keeps the parts of its template literal: which of the four texts it is, the
  key and the value interpolated. \<open>message_text\<close> below gives its characters.
\<close>

datatype message =
  AlreadyRegistered string reading
| UseAddFirst string
| RegisteredWithFallback string jsval
| NotRegistered string

datatype error = Error message | TypeError

record 'a outcome =
  result :: "error + 'a"
  after :: manager
  warned :: "message list"

text \<open>
  The constructor: an empty object literal, \<^verbatim>\<open>strict = false\<close>, \<^verbatim>\<open>createOnGet = true\<close>.
\<close>

definition constructor :: manager where
  "constructor =
     \<lparr>states = Map.empty, strict = False, createOnGet = True, states_proto = ObjectPrototype\<rparr>"

subsection \<open>Property access on \<^verbatim>\<open>states\<close>\<close>

text \<open>The key names a member that \<^verbatim>\<open>states\<close> inherits.\<close>

definition inherits :: "string \<Rightarrow> manager \<Rightarrow> bool" where
  "inherits key m = (states_proto m = ObjectPrototype \<and> key \<in> set object_prototype_names)"

text \<open>\<^verbatim>\<open>key in this.states\<close>: an own property, or an inherited one.\<close>

definition has_key :: "string \<Rightarrow> manager \<Rightarrow> bool" where
  "has_key key m = (case states m key of Some v \<Rightarrow> True | None \<Rightarrow> inherits key m)"

text \<open>\<^verbatim>\<open>this.states[key]\<close>: the own property first, then the inherited one.\<close>

definition read_key :: "string \<Rightarrow> manager \<Rightarrow> reading" where
  "read_key key m =
     (case states m key of
        Some v \<Rightarrow> Value v
      | None \<Rightarrow> (if inherits key m then Inherited key else Value JUndefined))"

text \<open>
  \<^verbatim>\<open>this.states[key] = v\<close>. An own property is overwritten. Otherwise, when the key is
  the inherited accessor \<^verbatim>\<open>__proto__\<close>, its setter runs: it sets the prototype when \<^verbatim>\<open>v\<close>
  is \<^verbatim>\<open>null\<close> and does nothing for any other primitive, and no property is created. In
  every other case (the inherited data properties are writable) an own property is
  created.
\<close>

definition assign :: "string \<Rightarrow> jsval \<Rightarrow> manager \<Rightarrow> manager" where
  "assign key v m =
     (if states m key = None \<and> inherits key m \<and> key = ''__proto__''
      then (if v = JNull then m\<lparr>states_proto := NullPrototype\<rparr> else m)
      else m\<lparr>states := (states m)(key \<mapsto> v)\<rparr>)"

text \<open>\<^verbatim>\<open>delete this.states[key]\<close> removes an own property and nothing else.\<close>

definition delete :: "string \<Rightarrow> manager \<Rightarrow> manager" where
  "delete key m = m\<lparr>states := (states m)(key := None)\<rparr>"

subsection \<open>\<^verbatim>\<open>init\<close>\<close>

record init_options =
  opt_strict :: "bool option"
  opt_createOnGet :: "bool option"
  opt_initialStates :: "(string \<rightharpoonup> jsval) option"

text \<open>
  \<^verbatim>\<open>options?.f\<close> is \<^verbatim>\<open>undefined\<close> (here \<open>None\<close>) when \<^verbatim>\<open>options\<close> is left out or the
  field is. \<^verbatim>\<open>x || d\<close> takes \<^verbatim>\<open>d\<close> when \<^verbatim>\<open>x\<close> is falsy: an object is never falsy, a
  boolean is when it is \<^verbatim>\<open>false\<close>. \<^verbatim>\<open>x ?? d\<close> takes \<^verbatim>\<open>d\<close> only when \<^verbatim>\<open>x\<close> is missing.
  The object that becomes \<^verbatim>\<open>states\<close> is a new one either way, with \<^verbatim>\<open>Object.prototype\<close>
  as its prototype.
\<close>

definition opt_field :: "(init_options \<Rightarrow> 'a option) \<Rightarrow> init_options option \<Rightarrow> 'a option" where
  "opt_field f options = (case options of None \<Rightarrow> None | Some opts \<Rightarrow> f opts)"

definition or_object :: "(string \<rightharpoonup> jsval) option \<Rightarrow> (string \<rightharpoonup> jsval) \<Rightarrow> (string \<rightharpoonup> jsval)" where
  "or_object x d = (case x of None \<Rightarrow> d | Some obj \<Rightarrow> obj)"

definition or_bool :: "bool option \<Rightarrow> bool \<Rightarrow> bool" where
  "or_bool x d = (case x of None \<Rightarrow> d | Some b \<Rightarrow> (if b then b else d))"

definition coalesce_bool :: "bool option \<Rightarrow> bool \<Rightarrow> bool" where
  "coalesce_bool x d = (case x of None \<Rightarrow> d | Some b \<Rightarrow> b)"

definition init :: "init_options option \<Rightarrow> manager \<Rightarrow> unit outcome" where
  "init options m =
     (let m1 = m\<lparr>states := or_object (opt_field opt_initialStates options) Map.empty,
                 states_proto := ObjectPrototype\<rparr>;
          m2 = m1\<lparr>strict := or_bool (opt_field opt_strict options) False\<rparr>;
          m3 = m2\<lparr>createOnGet := coalesce_bool (opt_field opt_createOnGet options) True\<rparr>
      in \<lparr>result = Inr (), after = m3, warned = []\<rparr>)"

subsection \<open>\<^verbatim>\<open>add\<close>, \<^verbatim>\<open>remove\<close>, \<^verbatim>\<open>set\<close> and \<^verbatim>\<open>get\<close>\<close>

text \<open>
  In \<^verbatim>\<open>add\<close>, the template literal of the warning is evaluated before \<^verbatim>\<open>console.warn\<close>
  is called, so a \<^verbatim>\<open>TypeError\<close> there leaves the log as it was.
\<close>

definition add :: "string \<Rightarrow> jsval \<Rightarrow> manager \<Rightarrow> unit outcome" where
  "add key arg m =
     (let initialState = default_param arg (JBool False) in
      if \<not> has_key key m
      then \<lparr>result = Inr (), after = assign key initialState m, warned = []\<rparr>
      else if template_throws (read_key key m)
      then \<lparr>result = Inl TypeError, after = m, warned = []\<rparr>
      else \<lparr>result = Inr (), after = m,
            warned = [AlreadyRegistered key (read_key key m)]\<rparr>)"

definition remove :: "string \<Rightarrow> manager \<Rightarrow> unit outcome" where
  "remove key m =
     (if strict m \<and> \<not> has_key key m
      then \<lparr>result = Inl (Error (UseAddFirst key)), after = m, warned = [UseAddFirst key]\<rparr>
      else if has_key key m
      then \<lparr>result = Inr (), after = delete key m, warned = []\<rparr>
      else \<lparr>result = Inr (), after = m, warned = []\<rparr>)"

definition set_state :: "string \<Rightarrow> jsval \<Rightarrow> manager \<Rightarrow> unit outcome" where
  "set_state key arg m =
     (let v = default_param arg (JBool True) in
      if strict m \<and> \<not> has_key key m
      then \<lparr>result = Inl (Error (UseAddFirst key)), after = m, warned = [UseAddFirst key]\<rparr>
      else \<lparr>result = Inr (), after = assign key v m, warned = []\<rparr>)"

text \<open>
  \<^verbatim>\<open>get\<close> calls \<^verbatim>\<open>this.add(key, fallbackValue)\<close> on its create-on-get path; an error of
  that call would propagate, and its warnings come before the one \<^verbatim>\<open>get\<close> logs.
\<close>

definition get :: "string \<Rightarrow> jsval \<Rightarrow> manager \<Rightarrow> reading outcome" where
  "get key arg m =
     (let fallbackValue = default_param arg (JBool False) in
      if strict m \<and> \<not> has_key key m
      then (if createOnGet m
            then (let a = add key fallbackValue m in
                  case result a of
                    Inl e \<Rightarrow> \<lparr>result = Inl e, after = after a, warned = warned a\<rparr>
                  | Inr u \<Rightarrow> \<lparr>result = Inr (Value fallbackValue), after = after a,
                              warned = warned a @ [RegisteredWithFallback key fallbackValue]\<rparr>)
            else \<lparr>result = Inl (Error (NotRegistered key)), after = m,
                  warned = [NotRegistered key]\<rparr>)
      else \<lparr>result = Inr (coalesce_reading (read_key key m) (JBool False)), after = m,
            warned = []\<rparr>)"

subsection \<open>The text of the messages\<close>

text \<open>String conversion of the primitives, as \<^verbatim>\<open>String(v)\<close> does it.\<close>

fun digits :: "nat \<Rightarrow> string" where
  "digits n = (if n < 10 then [char_of (48 + n)]
               else digits (n div 10) @ [char_of (48 + n mod 10)])"

fun String_js :: "jsval \<Rightarrow> string" where
  "String_js JUndefined = ''undefined''"
| "String_js JNull = ''null''"
| "String_js (JBool b) = (if b then ''true'' else ''false'')"
| "String_js (JNum n) =
     (if Rep_safe_integer n < 0 then ''-'' @ digits (nat (- Rep_safe_integer n))
      else digits (nat (Rep_safe_integer n)))"
| "String_js (JStr s) = s"
| "String_js (JSymbol i d) = ''Symbol('' @ d @ '')''"

text \<open>
  The text of an inherited member: \<^verbatim>\<open>Object.prototype\<close> prints as \<^verbatim>\<open>[object Object]\<close>;
  the text of a built-in function is left to the engine and is the parameter \<open>native\<close>.
\<close>

fun reading_text :: "(string \<Rightarrow> string) \<Rightarrow> reading \<Rightarrow> string" where
  "reading_text native (Value v) = String_js v"
| "reading_text native (Inherited name) =
     (if name = ''__proto__'' then ''[object Object]'' else native name)"

fun message_text :: "(string \<Rightarrow> string) \<Rightarrow> message \<Rightarrow> string" where
  \<open>message_text native (AlreadyRegistered key r) =
     ''Key "'' @ key @ ''" is already registered and has value "'' @ reading_text native r @ ''".''\<close>
| \<open>message_text native (UseAddFirst key) =
     ''Key "'' @ key @ ''" is not registered. Use "add" to register it first.''\<close>
| \<open>message_text native (RegisteredWithFallback key fb) =
     ''Key "'' @ key @ ''" is not registered. Registered with fallback value: '' @ String_js fb\<close>
| \<open>message_text native (NotRegistered key) = ''Key "'' @ key @ ''" is not registered.''\<close>

subsection \<open>Managers of the tests\<close>

text \<open>The managers of the test file's \<^verbatim>\<open>beforeEach\<close> blocks, with no entries.\<close>

definition strict_nocreate :: manager where
  "strict_nocreate =
     \<lparr>states = Map.empty, strict = True, createOnGet = False, states_proto = ObjectPrototype\<rparr>"

definition strict_create :: manager where
  "strict_create =
     \<lparr>states = Map.empty, strict = True, createOnGet = True, states_proto = ObjectPrototype\<rparr>"

text \<open>
  A strict manager in which \<^verbatim>\<open>registeredTask\<close> is registered with a given value, and
  the options of the test \<^emph>\<open>should initialize with custom initial states\<close>.
\<close>

definition strict_registered :: "jsval \<Rightarrow> manager" where
  "strict_registered v =
     \<lparr>states = [''registeredTask'' \<mapsto> v], strict = True, createOnGet = False,
      states_proto = ObjectPrototype\<rparr>"

definition preloaded_options :: init_options where
  "preloaded_options =
     \<lparr>opt_strict = None, opt_createOnGet = None,
      opt_initialStates = Some [''preloadedTask'' \<mapsto> JStr ''initial'']\<rparr>"

section \<open>Property access and message texts\<close>

text \<open>
  On a key that \<^verbatim>\<open>states\<close> does not inherit, an assignment creates or overwrites the
  entry; on a fresh object the inherited names are those of \<^verbatim>\<open>Object.prototype\<close>.
\<close>

lemma assign_not_inherited:
  assumes "\<not> inherits key m"
  shows "assign key v m = m\<lparr>states := (states m)(key \<mapsto> v)\<rparr>"
  using assms by (simp add: assign_def)

lemma fresh_object_inherits:
  "inherits ''toString'' constructor \<and> inherits ''constructor'' constructor
   \<and> inherits ''valueOf'' constructor \<and> inherits ''__proto__'' constructor
   \<and> \<not> inherits ''task1'' constructor"
  by (simp add: inherits_def constructor_def object_prototype_names_def)

text \<open>The messages that the tests of the repository expect, character by character.\<close>

lemma message_texts:
  \<open>message_text native (AlreadyRegistered ''task4'' (Value (JStr ''initial'')))
     = ''Key "task4" is already registered and has value "initial".''
   \<and> message_text native (UseAddFirst ''unregisteredTask'')
     = ''Key "unregisteredTask" is not registered. Use "add" to register it first.''
   \<and> message_text native (RegisteredWithFallback ''newTask'' (JStr ''newState''))
     = ''Key "newTask" is not registered. Registered with fallback value: newState''
   \<and> message_text native (RegisteredWithFallback ''anotherNewTask'' (JBool False))
     = ''Key "anotherNewTask" is not registered. Registered with fallback value: false''
   \<and> message_text native (NotRegistered ''unregisteredTask'')
     = ''Key "unregisteredTask" is not registered.''\<close>
  by simp

section \<open>Unregistered keys in strict mode\<close>

text \<open>
  C1. The claim: in strict mode, \<^verbatim>\<open>set\<close> and \<^verbatim>\<open>remove\<close> on a key absent from the entries
  throw and leave the entries unchanged. The code tests the key with \<^verbatim>\<open>in\<close>, which
  also finds the names inherited from \<^verbatim>\<open>Object.prototype\<close>. On a strict manager with no
  entries, \<^verbatim>\<open>set("toString", true)\<close> does not throw, logs nothing, and creates the entry;
  \<^verbatim>\<open>remove("toString")\<close> does not throw either.
\<close>

theorem strict_set_remove_inherited_name:
  "strict strict_nocreate \<and> states strict_nocreate ''toString'' = None
   \<and> result (set_state ''toString'' (JBool True) strict_nocreate) = Inr ()
   \<and> warned (set_state ''toString'' (JBool True) strict_nocreate) = []
   \<and> states (after (set_state ''toString'' (JBool True) strict_nocreate)) ''toString''
       = Some (JBool True)
   \<and> result (remove ''toString'' strict_nocreate) = Inr ()
   \<and> warned (remove ''toString'' strict_nocreate) = []"
  by (simp add: strict_nocreate_def set_state_def remove_def has_key_def inherits_def
        assign_def default_param_def object_prototype_names_def Let_def)

text \<open>
  On every key that is neither an entry nor an inherited name, the code does what the
  claim says: the message is logged, the error carries it, and the manager is unchanged.
\<close>

lemma strict_set_remove_unregistered:
  assumes "strict m" and "states m key = None" and "\<not> inherits key m"
  shows "result (set_state key v m) = Inl (Error (UseAddFirst key))
       \<and> states (after (set_state key v m)) = states m
       \<and> after (set_state key v m) = m
       \<and> warned (set_state key v m) = [UseAddFirst key]
       \<and> result (remove key m) = Inl (Error (UseAddFirst key))
       \<and> states (after (remove key m)) = states m
       \<and> after (remove key m) = m
       \<and> warned (remove key m) = [UseAddFirst key]"
  using assms by (simp add: set_state_def remove_def has_key_def Let_def)

text \<open>
  C8. The claim: in strict mode with \<^verbatim>\<open>createOnGet\<close> off, \<^verbatim>\<open>get\<close> on a key absent from
  the entries logs a warning and throws. By the same \<^verbatim>\<open>in\<close> test, on a strict manager
  with no entries \<^verbatim>\<open>get("constructor")\<close> neither warns nor throws: it returns the
  inherited member, the function \<^verbatim>\<open>Object\<close>.
\<close>

theorem strict_nocreate_get_inherited_name:
  "strict strict_nocreate \<and> \<not> createOnGet strict_nocreate
   \<and> states strict_nocreate ''constructor'' = None
   \<and> result (get ''constructor'' JUndefined strict_nocreate) = Inr (Inherited ''constructor'')
   \<and> warned (get ''constructor'' JUndefined strict_nocreate) = []"
  by (simp add: strict_nocreate_def get_def has_key_def read_key_def inherits_def
        object_prototype_names_def Let_def)

text \<open>
  On every key that is neither an entry nor an inherited name, \<^verbatim>\<open>get\<close> logs the
  message, throws the error that carries it, and leaves the manager unchanged.
\<close>

lemma strict_nocreate_get_unregistered:
  assumes "strict m" and "\<not> createOnGet m" and "states m key = None" and "\<not> inherits key m"
  shows "result (get key fb m) = Inl (Error (NotRegistered key))
       \<and> warned (get key fb m) = [NotRegistered key]
       \<and> after (get key fb m) = m"
  using assms by (simp add: get_def has_key_def)

text \<open>
  C9. A key that is in \<^verbatim>\<open>states\<close>, whatever value it holds (\<^verbatim>\<open>false\<close>, \<^verbatim>\<open>null\<close> and
  \<^verbatim>\<open>undefined\<close> included), never takes the unregistered-key path: \<^verbatim>\<open>remove\<close>, \<^verbatim>\<open>set\<close>
  and \<^verbatim>\<open>get\<close> on it return normally and log nothing, in strict mode as in any other.
\<close>

theorem registered_key_operations_succeed:
  assumes "states m key = Some v"
  shows "result (remove key m) = Inr () \<and> warned (remove key m) = []
       \<and> states (after (remove key m)) = (states m)(key := None)
       \<and> result (set_state key x m) = Inr () \<and> warned (set_state key x m) = []
       \<and> states (after (set_state key x m)) = (states m)(key \<mapsto> default_param x (JBool True))
       \<and> result (get key fb m) = Inr (Value (coalesce v (JBool False)))
       \<and> warned (get key fb m) = []
       \<and> after (get key fb m) = m"
  using assms
  by (simp add: remove_def set_state_def get_def has_key_def read_key_def assign_def
        delete_def Let_def)

theorem registered_key_operations_succeed_witness:
  "strict (strict_registered JUndefined)
   \<and> states (strict_registered JUndefined) ''registeredTask'' = Some JUndefined
   \<and> result (remove ''registeredTask'' (strict_registered JUndefined)) = Inr ()
   \<and> warned (remove ''registeredTask'' (strict_registered JUndefined)) = []
   \<and> result (set_state ''registeredTask'' (JBool True) (strict_registered JUndefined)) = Inr ()
   \<and> warned (set_state ''registeredTask'' (JBool True) (strict_registered JUndefined)) = []
   \<and> result (get ''registeredTask'' JUndefined (strict_registered JUndefined))
       = Inr (Value (JBool False))
   \<and> warned (get ''registeredTask'' JUndefined (strict_registered JUndefined)) = []
   \<and> states (strict_registered JNull) ''registeredTask'' = Some JNull
   \<and> result (get ''registeredTask'' JUndefined (strict_registered JNull))
       = Inr (Value (JBool False))
   \<and> warned (get ''registeredTask'' JUndefined (strict_registered JNull)) = []
   \<and> states (strict_registered (JBool False)) ''registeredTask'' = Some (JBool False)
   \<and> result (get ''registeredTask'' JUndefined (strict_registered (JBool False)))
       = Inr (Value (JBool False))
   \<and> warned (get ''registeredTask'' JUndefined (strict_registered (JBool False))) = []"
proof -
  have u: "states (strict_registered JUndefined) ''registeredTask'' = Some JUndefined"
    by (simp add: strict_registered_def)
  have n: "states (strict_registered JNull) ''registeredTask'' = Some JNull"
    by (simp add: strict_registered_def)
  have f: "states (strict_registered (JBool False)) ''registeredTask'' = Some (JBool False)"
    by (simp add: strict_registered_def)
  have s: "strict (strict_registered JUndefined)"
    by (simp add: strict_registered_def)
  show ?thesis
    using s u n f
      registered_key_operations_succeed [OF u, of "JBool True" JUndefined]
      registered_key_operations_succeed [OF n, of "JBool True" JUndefined]
      registered_key_operations_succeed [OF f, of "JBool True" JUndefined]
    by (simp add: coalesce_def nullish_def)
qed

section \<open>Reading\<close>

text \<open>
  C5. The claim: with strict mode off, \<^verbatim>\<open>get\<close> on a key absent from the entries returns
  \<^verbatim>\<open>false\<close>. The read \<^verbatim>\<open>this.states[key] ?? false\<close> goes through the prototype: on a
  fresh manager \<^verbatim>\<open>get("toString")\<close> returns the inherited function, not \<^verbatim>\<open>false\<close>.
\<close>

theorem nonstrict_get_inherited_name:
  "\<not> strict constructor \<and> states constructor ''toString'' = None
   \<and> result (get ''toString'' JUndefined constructor) = Inr (Inherited ''toString'')
   \<and> result (get ''toString'' JUndefined constructor) \<noteq> Inr (Value (JBool False))"
  by (simp add: constructor_def get_def has_key_def read_key_def inherits_def
        object_prototype_names_def Let_def)

text \<open>
  On every key that is neither an entry nor an inherited name, \<^verbatim>\<open>get\<close> returns
  \<^verbatim>\<open>false\<close>, whatever fallback argument it is given (\<open>JUndefined\<close> is the call
  \<^verbatim>\<open>get(k)\<close>), logs nothing, and leaves the entries and the flags as they were.
\<close>

lemma nonstrict_get_unregistered:
  assumes "\<not> strict m" and "states m key = None" and "\<not> inherits key m"
  shows "result (get key fb m) = Inr (Value (JBool False))
       \<and> after (get key fb m) = m
       \<and> warned (get key fb m) = []"
  using assms by (simp add: get_def has_key_def read_key_def coalesce_def nullish_def)

text \<open>
  C3. On a key that is in \<^verbatim>\<open>states\<close>, \<^verbatim>\<open>get\<close> returns the stored value, with \<^verbatim>\<open>null\<close>
  and \<^verbatim>\<open>undefined\<close> read as \<^verbatim>\<open>false\<close> (lemma \<open>get_registered_coerces\<close>). The second
  half of the claim, that no call of \<^verbatim>\<open>get\<close> returns \<^verbatim>\<open>null\<close> or \<^verbatim>\<open>undefined\<close>, breaks
  on the create-on-get path, which returns \<^verbatim>\<open>fallbackValue\<close> as it is: in strict mode with
  \<^verbatim>\<open>createOnGet\<close> on, \<^verbatim>\<open>get("newTask", null)\<close> on an unregistered key returns \<^verbatim>\<open>null\<close>,
  and the next \<^verbatim>\<open>get("newTask")\<close> returns \<^verbatim>\<open>false\<close> for the entry just stored. Lemma
  \<open>get_nullish_only_from_fallback\<close> shows that this is the only way.
\<close>

theorem create_on_get_returns_null:
  "strict strict_create \<and> createOnGet strict_create
   \<and> states strict_create ''newTask'' = None
   \<and> result (get ''newTask'' JNull strict_create) = Inr (Value JNull)
   \<and> nullish JNull
   \<and> result (get ''newTask'' JUndefined (after (get ''newTask'' JNull strict_create)))
       = Inr (Value (JBool False))"
  by (simp add: strict_create_def get_def add_def has_key_def read_key_def inherits_def
        assign_def coalesce_def nullish_def default_param_def object_prototype_names_def
        Let_def)

lemma get_registered_coerces:
  assumes "states m key = Some v"
  shows "result (get key fb m) = Inr (Value (if nullish v then JBool False else v))"
  using assms by (simp add: get_def has_key_def read_key_def coalesce_def)

lemma get_nullish_only_from_fallback:
  assumes "result (get key fb m) = Inr (Value r)" and "nullish r"
  shows "strict m \<and> createOnGet m \<and> \<not> has_key key m \<and> fb = JNull \<and> r = JNull"
  using assms
  by (auto simp add: get_def add_def has_key_def read_key_def coalesce_def nullish_def
        default_param_def Let_def split: if_splits option.splits)

section \<open>Create on get\<close>

text \<open>
  C2, as the code has it. In strict mode with \<^verbatim>\<open>createOnGet\<close> on, for every key that is
  neither an entry nor a name that \<^verbatim>\<open>states\<close> inherits, and every primitive fallback
  other than \<^verbatim>\<open>null\<close>, where an \<^verbatim>\<open>undefined\<close> fallback is the argument left out and
  stands for the default \<^verbatim>\<open>false\<close>: \<^verbatim>\<open>get(k, fb)\<close> registers \<^verbatim>\<open>k\<close> with \<^verbatim>\<open>fb\<close>, logs the
  auto-registration warning, returns \<^verbatim>\<open>fb\<close>, and the next \<^verbatim>\<open>get(k)\<close> returns \<^verbatim>\<open>fb\<close>
  again. What \<^verbatim>\<open>get\<close> does on an inherited name is left open here.
\<close>

theorem create_on_get_registers:
  assumes "strict m" and "createOnGet m" and "states m key = None"
    and "\<not> inherits key m" and "fb \<noteq> JNull"
  shows "result (get key fb m) = Inr (Value (default_param fb (JBool False)))
       \<and> after (get key fb m) = m\<lparr>states := (states m)(key \<mapsto> default_param fb (JBool False))\<rparr>
       \<and> warned (get key fb m) = [RegisteredWithFallback key (default_param fb (JBool False))]
       \<and> result (get key JUndefined (after (get key fb m)))
           = Inr (Value (default_param fb (JBool False)))"
  using assms
  by (simp add: get_def add_def has_key_def read_key_def assign_def coalesce_def nullish_def
        default_param_def Let_def)

theorem create_on_get_registers_witness:
  "strict strict_create \<and> createOnGet strict_create
   \<and> states strict_create ''newTask'' = None \<and> \<not> inherits ''newTask'' strict_create
   \<and> JStr ''newState'' \<noteq> JNull
   \<and> result (get ''newTask'' (JStr ''newState'') strict_create)
       = Inr (Value (JStr ''newState''))
   \<and> states (after (get ''newTask'' (JStr ''newState'') strict_create)) ''newTask''
       = Some (JStr ''newState'')
   \<and> warned (get ''newTask'' (JStr ''newState'') strict_create)
       = [RegisteredWithFallback ''newTask'' (JStr ''newState'')]
   \<and> result (get ''newTask'' JUndefined (after (get ''newTask'' (JStr ''newState'') strict_create)))
       = Inr (Value (JStr ''newState''))"
proof -
  have s: "strict strict_create" by (simp add: strict_create_def)
  have c: "createOnGet strict_create" by (simp add: strict_create_def)
  have a: "states strict_create ''newTask'' = None" by (simp add: strict_create_def)
  have i: "\<not> inherits ''newTask'' strict_create"
    by (simp add: inherits_def strict_create_def object_prototype_names_def)
  have n: "JStr ''newState'' \<noteq> JNull" by simp
  show ?thesis
    using s c a i create_on_get_registers [OF s c a i n]
    by (clarsimp simp add: default_param_def)
qed

text \<open>
  C2 as stated, for every fallback, fails at the fallback \<^verbatim>\<open>null\<close>: the key is registered
  with \<^verbatim>\<open>null\<close> and \<^verbatim>\<open>null\<close> is returned, but the next \<^verbatim>\<open>get(k)\<close> returns \<^verbatim>\<open>false\<close>.
\<close>

theorem create_on_get_null_counterexample:
  "strict strict_create \<and> createOnGet strict_create
   \<and> states strict_create ''newTask'' = None
   \<and> result (get ''newTask'' JNull strict_create) = Inr (Value JNull)
   \<and> states (after (get ''newTask'' JNull strict_create)) ''newTask'' = Some JNull
   \<and> result (get ''newTask'' JUndefined (after (get ''newTask'' JNull strict_create)))
       = Inr (Value (JBool False))
   \<and> result (get ''newTask'' JUndefined (after (get ''newTask'' JNull strict_create)))
       \<noteq> Inr (Value JNull)"
  by (simp add: strict_create_def get_def add_def has_key_def read_key_def inherits_def
        assign_def coalesce_def nullish_def default_param_def object_prototype_names_def
        Let_def)

text \<open>
  On an inherited name the create path is not taken: on a strict create-on-get manager
  with no entries, \<^verbatim>\<open>get("valueOf", "fb")\<close> registers nothing and returns the inherited
  function.
\<close>

lemma create_on_get_inherited_name:
  "states strict_create ''valueOf'' = None
   \<and> result (get ''valueOf'' (JStr ''fb'') strict_create) = Inr (Inherited ''valueOf'')
   \<and> after (get ''valueOf'' (JStr ''fb'') strict_create) = strict_create
   \<and> warned (get ''valueOf'' (JStr ''fb'') strict_create) = []"
  by (simp add: strict_create_def get_def has_key_def read_key_def inherits_def
        object_prototype_names_def Let_def)

section \<open>Writing\<close>

text \<open>
  C4, as the code has it. With strict mode off, for every key other than \<^verbatim>\<open>__proto__\<close>,
  \<^verbatim>\<open>set(k, v)\<close> returns normally and registers \<^verbatim>\<open>k\<close> if it was not; the \<^verbatim>\<open>get(k)\<close> that
  follows returns \<^verbatim>\<open>v\<close>, except that it returns \<^verbatim>\<open>false\<close> for \<^verbatim>\<open>v = null\<close> and \<^verbatim>\<open>true\<close>
  for \<^verbatim>\<open>v = undefined\<close>, which is the argument left out and so takes the default
  \<^verbatim>\<open>true\<close> of \<^verbatim>\<open>set\<close>. What the pair does on the key \<^verbatim>\<open>__proto__\<close> is left open here.
\<close>

theorem nonstrict_set_then_get:
  assumes "\<not> strict m" and "key \<noteq> ''__proto__''"
  shows "result (set_state key v m) = Inr ()
       \<and> states (after (set_state key v m)) key \<noteq> None
       \<and> result (get key JUndefined (after (set_state key v m)))
           = Inr (Value (if v = JUndefined then JBool True
                         else if v = JNull then JBool False else v))"
  using assms
  by (simp add: set_state_def get_def has_key_def read_key_def assign_def coalesce_def
        nullish_def default_param_def Let_def)

theorem nonstrict_set_then_get_witness:
  "\<not> strict constructor \<and> ''task1'' \<noteq> ''__proto__''
   \<and> result (set_state ''task1'' (JBool True) constructor) = Inr ()
   \<and> result (get ''task1'' JUndefined (after (set_state ''task1'' (JBool True) constructor)))
       = Inr (Value (JBool True))
   \<and> result (get ''task1'' JUndefined (after (set_state ''task1'' JNull constructor)))
       = Inr (Value (JBool False))
   \<and> ''toString'' \<noteq> ''__proto__''
   \<and> result (get ''toString'' JUndefined (after (set_state ''toString'' (JBool True) constructor)))
       = Inr (Value (JBool True))"
proof -
  have s: "\<not> strict constructor" by (simp add: constructor_def)
  have k: "''task1'' \<noteq> ''__proto__''" by simp
  have t: "''toString'' \<noteq> ''__proto__''" by simp
  show ?thesis
    using s nonstrict_set_then_get [OF s k, of "JBool True"]
      nonstrict_set_then_get [OF s k, of JNull]
      nonstrict_set_then_get [OF s t, of "JBool True"]
    by simp
qed

text \<open>
  C4 as stated says that an \<^verbatim>\<open>undefined\<close> value reads back as \<^verbatim>\<open>false\<close>; after
  \<^verbatim>\<open>set("task2", undefined)\<close> on a fresh manager the entry is \<^verbatim>\<open>true\<close> and \<^verbatim>\<open>get\<close> returns
  \<^verbatim>\<open>true\<close>.
\<close>

theorem nonstrict_set_undefined_counterexample:
  "\<not> strict constructor
   \<and> result (set_state ''task2'' JUndefined constructor) = Inr ()
   \<and> states (after (set_state ''task2'' JUndefined constructor)) ''task2'' = Some (JBool True)
   \<and> result (get ''task2'' JUndefined (after (set_state ''task2'' JUndefined constructor)))
       = Inr (Value (JBool True))
   \<and> result (get ''task2'' JUndefined (after (set_state ''task2'' JUndefined constructor)))
       \<noteq> Inr (Value (JBool False))"
  by (simp add: constructor_def set_state_def get_def has_key_def read_key_def inherits_def
        assign_def coalesce_def nullish_def default_param_def object_prototype_names_def
        Let_def)

text \<open>
  On the key \<^verbatim>\<open>__proto__\<close> of a fresh manager the assignment runs the inherited setter:
  \<^verbatim>\<open>set("__proto__", true)\<close> stores nothing, and \<^verbatim>\<open>get("__proto__")\<close> returns
  \<^verbatim>\<open>Object.prototype\<close>.
\<close>

lemma nonstrict_set_proto_accessor:
  "result (set_state ''__proto__'' (JBool True) constructor) = Inr ()
   \<and> after (set_state ''__proto__'' (JBool True) constructor) = constructor
   \<and> result (get ''__proto__'' JUndefined (after (set_state ''__proto__'' (JBool True) constructor)))
       = Inr (Inherited ''__proto__'')"
  by (simp add: constructor_def set_state_def get_def has_key_def read_key_def inherits_def
        assign_def default_param_def object_prototype_names_def Let_def)

section \<open>Configuration and registration\<close>

text \<open>
  C6. \<^verbatim>\<open>init\<close> never fails and logs nothing. Without options it gives the manager of the
  constructor: no entries, strict off, create-on-get on. With options, the entries are
  exactly the initial mapping supplied, or none when it is left out; strict is on exactly
  when the option is given as \<^verbatim>\<open>true\<close>, and create-on-get is on unless the option is
  given as \<^verbatim>\<open>false\<close>. Nothing of the manager before the call survives: two managers
  initialised with the same options are equal.
\<close>

theorem init_full_reset:
  "init None m
     = \<lparr>result = Inr (),
        after = \<lparr>states = Map.empty, strict = False, createOnGet = True,
                 states_proto = ObjectPrototype\<rparr>,
        warned = []\<rparr>
   \<and> result (init (Some opts) m) = Inr ()
   \<and> warned (init (Some opts) m) = []
   \<and> states (after (init (Some opts) m))
       = (case opt_initialStates opts of None \<Rightarrow> Map.empty | Some initial \<Rightarrow> initial)
   \<and> strict (after (init (Some opts) m)) = (opt_strict opts = Some True)
   \<and> createOnGet (after (init (Some opts) m)) = (opt_createOnGet opts \<noteq> Some False)
   \<and> init options m = init options m'"
  by (cases "opt_strict opts"; cases "opt_createOnGet opts")
     (simp_all add: init_def opt_field_def or_object_def or_bool_def coalesce_bool_def
        split: option.splits)

theorem init_full_reset_witness:
  "states (after (init (Some preloaded_options) (strict_registered (JBool True))))
     = [''preloadedTask'' \<mapsto> JStr ''initial'']
   \<and> states (after (init (Some preloaded_options) (strict_registered (JBool True))))
       ''registeredTask'' = None
   \<and> strict (after (init (Some preloaded_options) (strict_registered (JBool True)))) = False
   \<and> createOnGet (after (init (Some preloaded_options) (strict_registered (JBool True)))) = True
   \<and> after (init None (strict_registered (JBool True))) = constructor"
  using init_full_reset [of "strict_registered (JBool True)" preloaded_options]
  by (simp add: preloaded_options_def constructor_def)

text \<open>
  C7. The claim: \<^verbatim>\<open>add\<close> never fails, inserts a key that is absent from the entries, and
  on a registered key keeps the value and logs the duplicate warning. Two inputs break
  it. On a fresh manager \<^verbatim>\<open>add("toString", true)\<close> finds the inherited name with \<^verbatim>\<open>in\<close>,
  inserts nothing and logs the duplicate warning for a key that has no entry. And on a
  key whose entry is a symbol, \<^verbatim>\<open>add\<close> throws a \<^verbatim>\<open>TypeError\<close>, because the template literal
  of the warning cannot convert a symbol.
\<close>

theorem add_inherited_name_and_symbol:
  "states constructor ''toString'' = None
   \<and> result (add ''toString'' (JBool True) constructor) = Inr ()
   \<and> after (add ''toString'' (JBool True) constructor) = constructor
   \<and> states (after (add ''toString'' (JBool True) constructor)) ''toString'' = None
   \<and> warned (add ''toString'' (JBool True) constructor)
       = [AlreadyRegistered ''toString'' (Inherited ''toString'')]
   \<and> states (strict_registered (JSymbol 0 ''busy'')) ''registeredTask''
       = Some (JSymbol 0 ''busy'')
   \<and> result (add ''registeredTask'' (JBool True) (strict_registered (JSymbol 0 ''busy'')))
       = Inl TypeError"
  by (simp add: constructor_def strict_registered_def add_def has_key_def read_key_def
        inherits_def object_prototype_names_def Let_def)

text \<open>
  Apart from these, \<^verbatim>\<open>add\<close> does what the claim says. On a key that is neither an entry
  nor an inherited name it inserts the value given, and \<^verbatim>\<open>false\<close> when the value is left
  out, and logs nothing. On an entry that is not a symbol it changes nothing and logs
  that the key is already registered, with its current value. So \<^verbatim>\<open>add(k, x)\<close> on such a
  key followed by \<^verbatim>\<open>add(k, y)\<close> leaves the entry at \<^verbatim>\<open>x\<close> and logs the duplicate warning.
\<close>

lemma add_registers_or_warns:
  "(states m key = None \<and> \<not> inherits key m \<longrightarrow>
        result (add key x m) = Inr ()
        \<and> after (add key x m) = m\<lparr>states := (states m)(key \<mapsto> default_param x (JBool False))\<rparr>
        \<and> after (add key JUndefined m) = m\<lparr>states := (states m)(key \<mapsto> JBool False)\<rparr>
        \<and> warned (add key x m) = [])
   \<and> (\<forall>v. states m key = Some v \<and> \<not> template_throws (Value v) \<longrightarrow>
        result (add key x m) = Inr ()
        \<and> after (add key x m) = m \<and> warned (add key x m) = [AlreadyRegistered key (Value v)])
   \<and> (states m key = None \<and> \<not> inherits key m
        \<and> \<not> template_throws (Value (default_param x (JBool False))) \<longrightarrow>
        result (add key y (after (add key x m))) = Inr ()
        \<and> after (add key y (after (add key x m))) = after (add key x m)
        \<and> states (after (add key y (after (add key x m)))) key
            = Some (default_param x (JBool False))
        \<and> warned (add key y (after (add key x m)))
            = [AlreadyRegistered key (Value (default_param x (JBool False)))])"
  by (simp add: add_def has_key_def read_key_def assign_def default_param_def Let_def)

lemma add_default_is_false:
  "states (after (add ''task5'' JUndefined constructor)) ''task5'' = Some (JBool False)
   \<and> states (after (add ''task3'' (JStr ''inProgress'') constructor)) ''task3''
       = Some (JStr ''inProgress'')
   \<and> states (after (add ''task3'' JNull constructor)) ''task3'' = Some JNull"
  by (simp add: constructor_def add_def has_key_def inherits_def assign_def default_param_def
        object_prototype_names_def Let_def)

section \<open>Frame\<close>

text \<open>
  C10. Each of \<^verbatim>\<open>add\<close>, \<^verbatim>\<open>remove\<close>, \<^verbatim>\<open>set\<close> and \<^verbatim>\<open>get\<close>, on every manager and with every
  argument, leaves \<^verbatim>\<open>strict\<close> and \<^verbatim>\<open>createOnGet\<close> as they were and leaves every entry
  other than the one of its key as it was; so only \<^verbatim>\<open>init\<close> changes the two flags.
\<close>

theorem operations_frame:
  "strict (after (add key x m)) = strict m
   \<and> createOnGet (after (add key x m)) = createOnGet m
   \<and> (\<forall>other. other \<noteq> key \<longrightarrow> states (after (add key x m)) other = states m other)
   \<and> strict (after (remove key m)) = strict m
   \<and> createOnGet (after (remove key m)) = createOnGet m
   \<and> (\<forall>other. other \<noteq> key \<longrightarrow> states (after (remove key m)) other = states m other)
   \<and> strict (after (set_state key x m)) = strict m
   \<and> createOnGet (after (set_state key x m)) = createOnGet m
   \<and> (\<forall>other. other \<noteq> key \<longrightarrow> states (after (set_state key x m)) other = states m other)
   \<and> strict (after (get key x m)) = strict m
   \<and> createOnGet (after (get key x m)) = createOnGet m
   \<and> (\<forall>other. other \<noteq> key \<longrightarrow> states (after (get key x m)) other = states m other)"
  by (simp add: add_def remove_def set_state_def get_def assign_def delete_def Let_def)

theorem operations_frame_witness:
  "''other'' \<noteq> ''registeredTask''
   \<and> states (after (add ''other'' (JBool True) (strict_registered (JBool True)))) ''registeredTask''
       = Some (JBool True)
   \<and> states (after (remove ''other'' (strict_registered (JBool True)))) ''registeredTask''
       = Some (JBool True)
   \<and> states (after (set_state ''other'' (JBool False) (strict_registered (JBool True))))
       ''registeredTask'' = Some (JBool True)
   \<and> states (after (get ''other'' (JBool False) (strict_registered (JBool True))))
       ''registeredTask'' = Some (JBool True)
   \<and> strict (after (add ''other'' (JBool True) (strict_registered (JBool True))))
   \<and> \<not> createOnGet (after (add ''other'' (JBool True) (strict_registered (JBool True))))"
proof -
  have d: "''registeredTask'' \<noteq> ''other''" by simp
  have v: "states (strict_registered (JBool True)) ''registeredTask'' = Some (JBool True)"
    by (simp add: strict_registered_def)
  have s: "strict (strict_registered (JBool True))" by (simp add: strict_registered_def)
  have c: "\<not> createOnGet (strict_registered (JBool True))" by (simp add: strict_registered_def)
  show ?thesis
    using d v s c
      operations_frame [of "''other''" "JBool True" "strict_registered (JBool True)"]
      operations_frame [of "''other''" "JBool False" "strict_registered (JBool True)"]
    by simp
qed

end
